theory Spec2Isabelle
  imports Main
begin

section \<open>Term normalization for auto-loan rate records (scripts/normalize\_terms.py)\<close>

subsection \<open>Values, errors and string formatting\<close>

text \<open>
  The two \<^verbatim>\<open>raise ValueError(...)\<close> families of the module differ only in
  their message, so the message is part of the error value. \<open>TypeError\<close> is what
  Python raises when a non-integer reaches the integer comparisons of the normalizers.
\<close>

datatype error = ValueError string | TypeError

text \<open>Python's \<^verbatim>\<open>str(int)\<close>, which the f-strings of the module apply to a term.\<close>

definition digit_char :: "nat \<Rightarrow> char" where
  "digit_char d = ''0123456789'' ! d"

function str_nat :: "nat \<Rightarrow> string" where
  "str_nat n = (if n < 10 then [digit_char n] else str_nat (n div 10) @ [digit_char (n mod 10)])"
  by pat_completeness auto
termination
  by (relation "measure (\<lambda>n. n)") auto

declare str_nat.simps [simp del]

definition str_int :: "int \<Rightarrow> string" where
  "str_int i = (if i < 0 then CHR ''-'' # str_nat (nat (- i)) else str_nat (nat i))"

subsection \<open>The standard term set and the term normalizer\<close>

definition INDUSTRY_STANDARD_TERMS :: "int list" where
  "INDUSTRY_STANDARD_TERMS = [36, 48, 60, 72, 84]"

definition invalid_term_msg :: "int \<Rightarrow> string" where
  "invalid_term_msg term =
     ''Invalid term: '' @ str_int term @ ''. Term must be a non-negative number.''"

text \<open>
  The \<^verbatim>\<open>for standard_term in INDUSTRY_STANDARD_TERMS\<close> loop. The loop state is
  the pair \<open>(nearest_term, min_distance)\<close>; each equation of the second clause is
  one branch of the loop body.
\<close>

fun nearest_scan :: "int \<Rightarrow> int list \<Rightarrow> int \<times> int \<Rightarrow> int \<times> int" where
  "nearest_scan term [] (nearest_term, min_distance) = (nearest_term, min_distance)"
| "nearest_scan term (standard_term # rest) (nearest_term, min_distance) =
     (let distance = \<bar>term - standard_term\<bar> in
      if distance < min_distance then nearest_scan term rest (standard_term, distance)
      else if distance = min_distance
        then nearest_scan term rest (min nearest_term standard_term, min_distance)
      else nearest_scan term rest (nearest_term, min_distance))"

definition normalize_term_to_standard :: "int \<Rightarrow> error + int" where
  "normalize_term_to_standard term =
     (if term = 0 then Inr (INDUSTRY_STANDARD_TERMS ! 0)
      else if term < 0 then Inl (ValueError (invalid_term_msg term))
      else
        (let nearest_term = INDUSTRY_STANDARD_TERMS ! 0;
             min_distance = \<bar>term - nearest_term\<bar>
         in Inr (fst (nearest_scan term INDUSTRY_STANDARD_TERMS (nearest_term, min_distance)))))"

subsection \<open>The range normalizer, membership and diagnostics\<close>

definition invalid_range_msg :: "int \<Rightarrow> int \<Rightarrow> string" where
  "invalid_range_msg term_min term_max =
     ''Invalid range: min ('' @ str_int term_min @ '') > max ('' @ str_int term_max @ '')''"

text \<open>
  The returned tuple is built left to right, so a failure of the first call is the one
  that surfaces.
\<close>

definition normalize_term_range :: "int \<Rightarrow> int \<Rightarrow> error + int \<times> int" where
  "normalize_term_range term_min term_max =
     (if term_min > term_max then Inl (ValueError (invalid_range_msg term_min term_max))
      else
        (case normalize_term_to_standard term_min of
           Inl e \<Rightarrow> Inl e
         | Inr normalized_min \<Rightarrow>
             (case normalize_term_to_standard term_max of
                Inl e \<Rightarrow> Inl e
              | Inr normalized_max \<Rightarrow> Inr (normalized_min, normalized_max))))"

definition is_standard_term :: "int \<Rightarrow> bool" where
  "is_standard_term term = (term \<in> set INDUSTRY_STANDARD_TERMS)"

text \<open>
  The dictionary returned by \<^verbatim>\<open>get_term_normalization_info\<close> has four fixed keys,
  the fields of the record. The local variable \<^verbatim>\<open>normalized\<close> of the source is
  \<open>normalized_term\<close> below, the field keeping the name.
\<close>

record normalization_info =
  original :: int
  normalized :: int
  distance :: int
  wasModified :: bool

definition get_term_normalization_info :: "int \<Rightarrow> error + normalization_info" where
  "get_term_normalization_info term =
     (case normalize_term_to_standard term of
        Inl e \<Rightarrow> Inl e
      | Inr normalized_term \<Rightarrow>
          Inr \<lparr> original = term,
                normalized = normalized_term,
                distance = \<bar>term - normalized_term\<bar>,
                wasModified = (term \<noteq> normalized_term) \<rparr>)"

subsection \<open>Rate records and the record normalizer\<close>

text \<open>
  A rate record is a Python dict from field names to values. The module reads integers
  out of the term fields and writes integers and one string; every other value (a float
  such as \<^verbatim>\<open>apr\<close>, say) is carried through untouched and stays uninterpreted
  (\<open>POther\<close>).
\<close>

datatype 'a pyval = PInt int | PStr string | POther 'a

type_synonym 'a rate_dict = "string \<rightharpoonup> 'a pyval"

text \<open>
  Dicts are mutable objects, so they live in a store: the address of a dict is its index
  in the list of allocated dicts. \<^verbatim>\<open>d.copy()\<close> allocates a fresh dict with the
  same items, \<^verbatim>\<open>d[k] = v\<close> updates the dict at an address in place.
\<close>

type_synonym 'a heap = "'a rate_dict list"

definition dict_copy :: "'a heap \<Rightarrow> nat \<Rightarrow> 'a heap \<times> nat" where
  "dict_copy h a = (h @ [h ! a], length h)"

definition dict_setitem :: "'a heap \<Rightarrow> nat \<Rightarrow> string \<Rightarrow> 'a pyval \<Rightarrow> 'a heap" where
  "dict_setitem h a k v = h[a := (h ! a)(k \<mapsto> v)]"

text \<open>
  The normalizers are annotated \<^verbatim>\<open>term: int\<close>, \<^verbatim>\<open>term_min: int\<close> and
  \<^verbatim>\<open>term_max: int\<close>. A term field that holds anything else is outside that type;
  the model stops there with \<open>TypeError\<close>, which is what Python raises when
  \<^verbatim>\<open>term < 0\<close> or \<^verbatim>\<open>term_min > term_max\<close> compares a string with an
  integer. The theorems about the values computed are stated for integer term fields.
\<close>

definition int_arg :: "'a pyval \<Rightarrow> error + int" where
  "int_arg v = (case v of PInt i \<Rightarrow> Inr i | PStr s \<Rightarrow> Inl TypeError | POther x \<Rightarrow> Inl TypeError)"

definition missing_terms_msg :: string where
  "missing_terms_msg = ''Rate data must include either termMonths or termMin/termMax''"

text \<open>The \<^verbatim>\<open>if\<close>/\<^verbatim>\<open>elif\<close>/\<^verbatim>\<open>else\<close> of the record normalizer: it yields \<open>(term_min, term_max)\<close>.\<close>

definition term_bounds :: "'a rate_dict \<Rightarrow> error + int \<times> int" where
  "term_bounds rate_data =
     (if ''termMonths'' \<in> dom rate_data then
        (case int_arg (the (rate_data ''termMonths'')) of
           Inl e \<Rightarrow> Inl e
         | Inr term \<Rightarrow>
             (case normalize_term_to_standard term of
                Inl e \<Rightarrow> Inl e
              | Inr normalized_term \<Rightarrow> Inr (normalized_term, normalized_term)))
      else if ''termMin'' \<in> dom rate_data \<and> ''termMax'' \<in> dom rate_data then
        (case int_arg (the (rate_data ''termMin'')) of
           Inl e \<Rightarrow> Inl e
         | Inr term_min \<Rightarrow>
             (case int_arg (the (rate_data ''termMax'')) of
                Inl e \<Rightarrow> Inl e
              | Inr term_max \<Rightarrow> normalize_term_range term_min term_max))
      else Inl (ValueError missing_terms_msg))"

text \<open>The f-string conditional that builds \<^verbatim>\<open>term_label\<close>.\<close>

definition term_label :: "int \<Rightarrow> int \<Rightarrow> string" where
  "term_label term_min term_max =
     (if term_min = term_max then str_int term_min @ '' Months''
      else str_int term_min @ ''-'' @ str_int term_max @ '' Months'')"

text \<open>
  \<^verbatim>\<open>normalize_rate_terms\<close> takes the store and the address of the caller's dict, and
  returns the new store with either the error raised or the address of the result.
\<close>

definition normalize_rate_terms :: "'a heap \<Rightarrow> nat \<Rightarrow> 'a heap \<times> (error + nat)" where
  "normalize_rate_terms h rate_data =
     (let (h1, result) = dict_copy h rate_data in
      case term_bounds (h1 ! rate_data) of
        Inl e \<Rightarrow> (h1, Inl e)
      | Inr (term_min, term_max) \<Rightarrow>
          (let h2 = dict_setitem h1 result ''term_range_min'' (PInt term_min);
               h3 = dict_setitem h2 result ''term_range_max'' (PInt term_max);
               h4 = dict_setitem h3 result ''term_label'' (PStr (term_label term_min term_max))
           in (h4, Inr result)))"

subsection \<open>The invariant of the scan\<close>

text \<open>
  After the scan has seen the candidates \<open>S\<close>, the state holds a nearest candidate of
  \<open>S\<close> with its distance, the smallest one among those at that distance.
\<close>

definition scan_ok :: "int \<Rightarrow> int set \<Rightarrow> int \<times> int \<Rightarrow> bool" where
  "scan_ok t S st = (snd st = \<bar>t - fst st\<bar> \<and> fst st \<in> S
     \<and> (\<forall>c\<in>S. \<bar>t - fst st\<bar> \<le> \<bar>t - c\<bar>)
     \<and> (\<forall>c\<in>S. \<bar>t - c\<bar> = \<bar>t - fst st\<bar> \<longrightarrow> fst st \<le> c))"

section \<open>Properties of the term normalizer\<close>

subsection \<open>The scan keeps its invariant\<close>

lemma nearest_scan_inv:
  "scan_ok t S (n, d) \<Longrightarrow> scan_ok t (S \<union> set xs) (nearest_scan t xs (n, d))"
proof (induction xs arbitrary: n d S)
  case Nil
  then show ?case by simp
next
  case (Cons x xs)
  let ?dist = "\<bar>t - x\<bar>"
  have un: "S \<union> set (x # xs) = insert x S \<union> set xs" by auto
  consider (lt) "?dist < d" | (eq) "?dist = d" | (gt) "d < ?dist" by linarith
  then show ?case
  proof cases
    case lt
    have "scan_ok t (insert x S) (x, ?dist)"
      using Cons.prems lt unfolding scan_ok_def by fastforce
    from Cons.IH[OF this] show ?thesis using lt un by simp
  next
    case eq
    have "scan_ok t (insert x S) (min n x, d)"
      using Cons.prems eq unfolding scan_ok_def by (auto simp: min_def)
    from Cons.IH[OF this] show ?thesis using eq un by simp
  next
    case gt
    have "scan_ok t (insert x S) (n, d)"
      using Cons.prems gt unfolding scan_ok_def by auto
    from Cons.IH[OF this] show ?thesis using gt un by simp
  qed
qed

lemma standard_first: "INDUSTRY_STANDARD_TERMS ! 0 = 36"
  by (simp add: INDUSTRY_STANDARD_TERMS_def)

subsection \<open>A closed form\<close>

text \<open>
  The midpoints 42, 54, 66 and 78 between neighbouring standard terms go to the lower
  neighbour, so the normalizer is a step function on the non-negative integers.
\<close>

lemma normalize_closed_form:
  assumes "0 \<le> t"
  shows "normalize_term_to_standard t =
     Inr (if t \<le> 42 then 36 else if t \<le> 54 then 48 else if t \<le> 66 then 60
          else if t \<le> 78 then 72 else 84)"
proof -
  consider "t = 0" | "0 < t \<and> t \<le> 42" | "42 < t \<and> t \<le> 54" | "54 < t \<and> t \<le> 66"
    | "66 < t \<and> t \<le> 78" | "78 < t"
    using assms by linarith
  then show ?thesis
    by cases (auto simp add: normalize_term_to_standard_def INDUSTRY_STANDARD_TERMS_def Let_def)
qed

lemma normalize_negative:
  "t < 0 \<Longrightarrow> normalize_term_to_standard t = Inl (ValueError (invalid_term_msg t))"
  by (simp add: normalize_term_to_standard_def)

lemma normalize_returns: "0 \<le> t \<Longrightarrow> \<exists>n. normalize_term_to_standard t = Inr n"
  by (simp add: normalize_closed_form)

lemma normalize_term_range_returns:
  "0 \<le> a \<Longrightarrow> a \<le> b \<Longrightarrow> \<exists>mn mx. normalize_term_range a b = Inr (mn, mx)"
  by (simp add: normalize_term_range_def normalize_closed_form)

lemma normalize_term_range_Inr:
  "normalize_term_range a b = Inr (mn, mx) \<Longrightarrow>
     normalize_term_to_standard a = Inr mn \<and> normalize_term_to_standard b = Inr mx"
  by (auto simp add: normalize_term_range_def split: if_splits sum.splits)

subsection \<open>Nearest standard term, ties to the smaller one\<close>

text \<open>
  Claim C1. For every integer term greater than 0, \<open>normalize_term_to_standard\<close>
  returns a member of the standard set whose distance to the term is minimal over all
  five candidates, and among the candidates at that minimal distance it returns the
  smallest (so 42 goes to 36 and 66 goes to 60).
\<close>

theorem normalize_nearest_smallest:
  assumes "0 < term"
  shows "\<exists>r. normalize_term_to_standard term = Inr r
           \<and> r \<in> set INDUSTRY_STANDARD_TERMS
           \<and> (\<forall>c\<in>set INDUSTRY_STANDARD_TERMS. \<bar>term - r\<bar> \<le> \<bar>term - c\<bar>)
           \<and> (\<forall>c\<in>set INDUSTRY_STANDARD_TERMS. \<bar>term - c\<bar> = \<bar>term - r\<bar> \<longrightarrow> r \<le> c)"
proof -
  let ?st = "nearest_scan term INDUSTRY_STANDARD_TERMS (36, \<bar>term - 36\<bar>)"
  have "scan_ok term {36} (36, \<bar>term - 36\<bar>)"
    by (simp add: scan_ok_def)
  then have "scan_ok term ({36} \<union> set INDUSTRY_STANDARD_TERMS) ?st"
    by (rule nearest_scan_inv)
  moreover have "{36} \<union> set INDUSTRY_STANDARD_TERMS = set INDUSTRY_STANDARD_TERMS"
    by (auto simp: INDUSTRY_STANDARD_TERMS_def)
  ultimately have "scan_ok term (set INDUSTRY_STANDARD_TERMS) ?st"
    by simp
  moreover have "normalize_term_to_standard term = Inr (fst ?st)"
    using assms by (simp add: normalize_term_to_standard_def standard_first Let_def)
  ultimately show ?thesis
    unfolding scan_ok_def by blast
qed

theorem normalize_nearest_smallest_witness:
  "(0::int) < 42 \<and> normalize_term_to_standard 42 = Inr 36
   \<and> (0::int) < 66 \<and> normalize_term_to_standard 66 = Inr 60"
  using normalize_nearest_smallest[of 42] normalize_nearest_smallest[of 66]
  by (simp add: normalize_term_to_standard_def INDUSTRY_STANDARD_TERMS_def)

subsection \<open>Monotonicity\<close>

text \<open>
  Claim C3. The normalizer is monotone on non-negative terms: for \<open>0 \<le> a \<le> b\<close> both
  calls return and the result for \<open>a\<close> is at most the result for \<open>b\<close>; hence
  \<open>normalize_term_range a b\<close> returns a pair whose first component is at most the
  second.
\<close>

theorem normalize_monotone:
  assumes "0 \<le> a" and "a \<le> b"
  shows "\<exists>na nb. normalize_term_to_standard a = Inr na
           \<and> normalize_term_to_standard b = Inr nb
           \<and> na \<le> nb
           \<and> normalize_term_range a b = Inr (na, nb)"
proof -
  have b: "0 \<le> b" using assms by linarith
  show ?thesis
    using assms
    by (simp add: normalize_term_range_def normalize_closed_form[OF assms(1)]
        normalize_closed_form[OF b])
qed

theorem normalize_monotone_witness:
  "(0::int) \<le> 37 \<and> (37::int) \<le> 60
   \<and> normalize_term_to_standard 37 = Inr 36 \<and> normalize_term_to_standard 60 = Inr 60
   \<and> normalize_term_range 37 60 = Inr (36, 60)"
  using normalize_monotone[of 37 60]
  by (simp add: normalize_closed_form)

subsection \<open>Failures of the term and range normalizers\<close>

text \<open>
  Claim C4. \<open>normalize_term_to_standard\<close> raises its \<^verbatim>\<open>ValueError\<close> (the
  invalid-argument error) exactly when the term is negative, and returns otherwise.
  \<open>normalize_term_range\<close> raises its \<^verbatim>\<open>ValueError\<close> when the minimum exceeds
  the maximum; equal bounds are accepted, and on non-negative bounds in order it
  returns. It fails exactly when the bounds are out of order or the minimum is negative.
\<close>

theorem normalizer_failures:
  "(normalize_term_to_standard t = Inl (ValueError (invalid_term_msg t))) = (t < 0)
   \<and> (\<exists>e. normalize_term_to_standard t = Inl e) = (t < 0)
   \<and> (0 \<le> t \<longrightarrow> (\<exists>r. normalize_term_to_standard t = Inr r))
   \<and> (term_min > term_max \<longrightarrow>
        normalize_term_range term_min term_max =
          Inl (ValueError (invalid_range_msg term_min term_max)))
   \<and> (0 \<le> term_min \<and> term_min \<le> term_max \<longrightarrow>
        (\<exists>p. normalize_term_range term_min term_max = Inr p))
   \<and> (\<exists>e. normalize_term_range term_min term_max = Inl e)
        = (term_min > term_max \<or> term_min < 0)"
proof -
  have n1: "(normalize_term_to_standard t = Inl (ValueError (invalid_term_msg t))) = (t < 0)"
    by (cases "t < 0") (simp_all add: normalize_negative normalize_closed_form)
  have n2: "(\<exists>e. normalize_term_to_standard t = Inl e) = (t < 0)"
    by (cases "t < 0") (simp_all add: normalize_negative normalize_closed_form)
  have n3: "0 \<le> t \<longrightarrow> (\<exists>r. normalize_term_to_standard t = Inr r)"
    by (simp add: normalize_closed_form)
  have r1: "term_min > term_max \<longrightarrow>
        normalize_term_range term_min term_max =
          Inl (ValueError (invalid_range_msg term_min term_max))"
    by (simp add: normalize_term_range_def)
  have r2: "0 \<le> term_min \<and> term_min \<le> term_max \<longrightarrow>
        (\<exists>p. normalize_term_range term_min term_max = Inr p)"
    by (simp add: normalize_term_range_def normalize_closed_form)
  have r3: "(\<exists>e. normalize_term_range term_min term_max = Inl e)
        = (term_min > term_max \<or> term_min < 0)"
  proof (cases "term_min > term_max")
    case True
    then show ?thesis by (simp add: normalize_term_range_def)
  next
    case le: False
    show ?thesis
    proof (cases "term_min < 0")
      case True
      then show ?thesis using le
        by (simp add: normalize_term_range_def normalize_negative)
    next
      case False
      then show ?thesis using le
        by (simp add: normalize_term_range_def normalize_closed_form)
    qed
  qed
  from n1 n2 n3 r1 r2 r3 show ?thesis by blast
qed

theorem normalizer_failures_witness:
  "normalize_term_to_standard (- 1) =
     Inl (ValueError ''Invalid term: -1. Term must be a non-negative number.'')
   \<and> normalize_term_range 10 5 = Inl (ValueError ''Invalid range: min (10) > max (5)'')
   \<and> normalize_term_range 5 5 = Inr (36, 36)
   \<and> normalize_term_to_standard 0 = Inr 36"
  using normalizer_failures[of "- 1" 10 5] normalizer_failures[of 0 5 5]
  by (simp add: invalid_term_msg_def invalid_range_msg_def str_int_def str_nat.simps
      digit_char_def normalize_term_range_def normalize_closed_form)

subsection \<open>The zero special case\<close>

text \<open>
  Claim C7. \<open>normalize_term_to_standard 0\<close> returns 36, the first and smallest standard
  term. The test \<open>term = 0\<close> is the first branch of the function, ahead of the sign
  check and of the scan, and its result is the head of the constant list.
\<close>

theorem normalize_zero:
  "normalize_term_to_standard 0 = Inr 36
   \<and> normalize_term_to_standard 0 = Inr (INDUSTRY_STANDARD_TERMS ! 0)
   \<and> INDUSTRY_STANDARD_TERMS ! 0 = Min (set INDUSTRY_STANDARD_TERMS)"
  by (simp add: normalize_term_to_standard_def INDUSTRY_STANDARD_TERMS_def)

subsection \<open>Fixed points and idempotence\<close>

text \<open>
  Claim C8. For every non-negative term the result is a member of the standard set and
  is itself left unchanged by the normalizer (idempotence); every standard term is a
  fixed point.
\<close>

theorem normalize_idempotent:
  "(0 \<le> t \<longrightarrow>
      (\<exists>r. normalize_term_to_standard t = Inr r
         \<and> r \<in> set INDUSTRY_STANDARD_TERMS
         \<and> normalize_term_to_standard r = Inr r))
   \<and> (\<forall>s\<in>set INDUSTRY_STANDARD_TERMS. normalize_term_to_standard s = Inr s)"
  by (simp add: normalize_closed_form INDUSTRY_STANDARD_TERMS_def)

theorem normalize_idempotent_witness:
  "(0::int) \<le> 66 \<and> normalize_term_to_standard 66 = Inr 60
   \<and> normalize_term_to_standard 60 = Inr 60 \<and> 60 \<in> set INDUSTRY_STANDARD_TERMS"
  using normalize_idempotent[of 66]
  by (simp add: normalize_closed_form INDUSTRY_STANDARD_TERMS_def)

subsection \<open>The diagnostic record\<close>

text \<open>
  Claim C9. For every non-negative term, \<open>get_term_normalization_info\<close> returns a
  record whose fields agree with each other and with \<open>is_standard_term\<close>:
  \<open>wasModified\<close> holds exactly when \<open>distance\<close> is not 0, and fails exactly when the
  term is a standard term. For the term 0 the distance is 36 and \<open>wasModified\<close> holds.
\<close>

theorem normalization_info_consistent:
  "(0 \<le> t \<longrightarrow>
      (\<exists>i. get_term_normalization_info t = Inr i
         \<and> original i = t
         \<and> normalize_term_to_standard t = Inr (normalized i)
         \<and> distance i = \<bar>t - normalized i\<bar>
         \<and> wasModified i = (distance i \<noteq> 0)
         \<and> (\<not> wasModified i) = is_standard_term t))
   \<and> get_term_normalization_info 0 =
       Inr \<lparr> original = 0, normalized = 36, distance = 36, wasModified = True \<rparr>"
  by (auto simp add: get_term_normalization_info_def normalize_closed_form
      is_standard_term_def INDUSTRY_STANDARD_TERMS_def)

theorem normalization_info_consistent_witness:
  "get_term_normalization_info 66 =
     Inr \<lparr> original = 66, normalized = 60, distance = 6, wasModified = True \<rparr>
   \<and> \<not> is_standard_term 66
   \<and> get_term_normalization_info 60 =
     Inr \<lparr> original = 60, normalized = 60, distance = 0, wasModified = False \<rparr>
   \<and> is_standard_term 60"
  using normalization_info_consistent[of 66] normalization_info_consistent[of 60]
  by (simp add: get_term_normalization_info_def normalize_closed_form
      is_standard_term_def INDUSTRY_STANDARD_TERMS_def)

subsection \<open>Clamping at both ends\<close>

text \<open>
  Claim C10. Terms from 1 to 41 go to 36, the first standard term, and every term from
  79 upwards, without bound, goes to 84, the last one.
\<close>

theorem normalize_clamps:
  "(0 < t \<and> t \<le> 41 \<longrightarrow> normalize_term_to_standard t = Inr 36)
   \<and> (79 \<le> t \<longrightarrow> normalize_term_to_standard t = Inr 84)
   \<and> hd INDUSTRY_STANDARD_TERMS = 36 \<and> last INDUSTRY_STANDARD_TERMS = 84"
  by (simp add: normalize_closed_form INDUSTRY_STANDARD_TERMS_def)

theorem normalize_clamps_witness:
  "normalize_term_to_standard 1 = Inr 36 \<and> normalize_term_to_standard 41 = Inr 36
   \<and> normalize_term_to_standard 79 = Inr 84 \<and> normalize_term_to_standard 100000 = Inr 84"
  using normalize_clamps[of 1] normalize_clamps[of 41] normalize_clamps[of 79]
    normalize_clamps[of 100000]
  by simp

section \<open>Properties of the record normalizer\<close>

text \<open>
  With a valid address for the caller's dict, a call allocates the copy at the end of
  the store and, unless the term fields make it fail, writes the three fields there.
\<close>

lemma normalize_rate_terms_unfold:
  assumes "rate_data < length h"
  shows "normalize_rate_terms h rate_data =
     (case term_bounds (h ! rate_data) of
        Inl e \<Rightarrow> (h @ [h ! rate_data], Inl e)
      | Inr (term_min, term_max) \<Rightarrow>
          (h @ [(h ! rate_data)(''term_range_min'' \<mapsto> PInt term_min,
                               ''term_range_max'' \<mapsto> PInt term_max,
                               ''term_label'' \<mapsto> PStr (term_label term_min term_max))],
           Inr (length h)))"
  using assms
  by (simp add: normalize_rate_terms_def dict_copy_def dict_setitem_def Let_def nth_append
      split: sum.splits prod.splits)

lemma term_bounds_exact:
  assumes "d ''termMonths'' = Some (PInt t)"
  shows "term_bounds d =
     (case normalize_term_to_standard t of Inl e \<Rightarrow> Inl e | Inr n \<Rightarrow> Inr (n, n))"
  using assms by (simp add: term_bounds_def int_arg_def dom_def)

lemma term_bounds_range:
  assumes "d ''termMonths'' = None" "d ''termMin'' = Some (PInt a)" "d ''termMax'' = Some (PInt b)"
  shows "term_bounds d = normalize_term_range a b"
  using assms by (simp add: term_bounds_def int_arg_def dom_def)

lemma str_int_examples:
  "str_int 36 = ''36''" "str_int 60 = ''60''" "str_int 72 = ''72''"
  by (simp_all add: str_int_def str_nat.simps digit_char_def)

subsection \<open>Dispatch on the shape of the record\<close>

text \<open>
  Claim C2. When \<^verbatim>\<open>termMonths\<close> is present (whether or not the range keys are),
  \<open>term_range_min\<close> and \<open>term_range_max\<close> of the result both hold the normalized
  \<^verbatim>\<open>termMonths\<close> and the label is \<^verbatim>\<open>"{min} Months"\<close>. Otherwise, when
  \<^verbatim>\<open>termMin\<close> and \<^verbatim>\<open>termMax\<close> are both present, the two fields hold the pair
  returned by \<open>normalize_term_range\<close>, which is the pair of the two normalized bounds,
  and the label is \<^verbatim>\<open>"{min} Months"\<close> when they are equal and
  \<^verbatim>\<open>"{min}-{max} Months"\<close> otherwise. The result is produced for every
  non-negative term and every ordered non-negative range; a failure of the normalizer
  called is the failure of the record normalizer.
\<close>

theorem normalize_rate_terms_dispatch:
  assumes "rate_data < length h"
  shows
    "(\<forall>t. (h ! rate_data) ''termMonths'' = Some (PInt t) \<and> 0 \<le> t \<longrightarrow>
        (\<exists>n h' res. normalize_term_to_standard t = Inr n
           \<and> normalize_rate_terms h rate_data = (h', Inr res)
           \<and> (h' ! res) ''term_range_min'' = Some (PInt n)
           \<and> (h' ! res) ''term_range_max'' = Some (PInt n)
           \<and> (h' ! res) ''term_label'' = Some (PStr (str_int n @ '' Months''))))
     \<and> (\<forall>a b. (h ! rate_data) ''termMonths'' = None
          \<and> (h ! rate_data) ''termMin'' = Some (PInt a)
          \<and> (h ! rate_data) ''termMax'' = Some (PInt b)
          \<and> 0 \<le> a \<and> a \<le> b \<longrightarrow>
        (\<exists>mn mx h' res. normalize_term_range a b = Inr (mn, mx)
           \<and> normalize_term_to_standard a = Inr mn
           \<and> normalize_term_to_standard b = Inr mx
           \<and> normalize_rate_terms h rate_data = (h', Inr res)
           \<and> (h' ! res) ''term_range_min'' = Some (PInt mn)
           \<and> (h' ! res) ''term_range_max'' = Some (PInt mx)
           \<and> (h' ! res) ''term_label'' =
               Some (PStr (if mn = mx then str_int mn @ '' Months''
                           else str_int mn @ ''-'' @ str_int mx @ '' Months''))))
     \<and> (\<forall>t e. (h ! rate_data) ''termMonths'' = Some (PInt t)
          \<and> normalize_term_to_standard t = Inl e \<longrightarrow>
        snd (normalize_rate_terms h rate_data) = Inl e)
     \<and> (\<forall>a b e. (h ! rate_data) ''termMonths'' = None
          \<and> (h ! rate_data) ''termMin'' = Some (PInt a)
          \<and> (h ! rate_data) ''termMax'' = Some (PInt b)
          \<and> normalize_term_range a b = Inl e \<longrightarrow>
        snd (normalize_rate_terms h rate_data) = Inl e)"
proof -
  note unf = normalize_rate_terms_unfold[OF assms]
  have exact_ok: "\<exists>n h' res. normalize_term_to_standard t = Inr n
           \<and> normalize_rate_terms h rate_data = (h', Inr res)
           \<and> (h' ! res) ''term_range_min'' = Some (PInt n)
           \<and> (h' ! res) ''term_range_max'' = Some (PInt n)
           \<and> (h' ! res) ''term_label'' = Some (PStr (str_int n @ '' Months''))"
    if "(h ! rate_data) ''termMonths'' = Some (PInt t)" and "0 \<le> t" for t
  proof -
    from normalize_returns[OF that(2)] obtain n where n: "normalize_term_to_standard t = Inr n"
      by blast
    show ?thesis
      using that(1) by (simp add: unf term_bounds_exact n term_label_def)
  qed
  have range_ok: "\<exists>mn mx h' res. normalize_term_range a b = Inr (mn, mx)
           \<and> normalize_term_to_standard a = Inr mn
           \<and> normalize_term_to_standard b = Inr mx
           \<and> normalize_rate_terms h rate_data = (h', Inr res)
           \<and> (h' ! res) ''term_range_min'' = Some (PInt mn)
           \<and> (h' ! res) ''term_range_max'' = Some (PInt mx)
           \<and> (h' ! res) ''term_label'' =
               Some (PStr (if mn = mx then str_int mn @ '' Months''
                           else str_int mn @ ''-'' @ str_int mx @ '' Months''))"
    if "(h ! rate_data) ''termMonths'' = None" and "(h ! rate_data) ''termMin'' = Some (PInt a)"
      and "(h ! rate_data) ''termMax'' = Some (PInt b)" and "0 \<le> a" and "a \<le> b" for a b
  proof -
    from normalize_term_range_returns[OF that(4,5)]
    obtain mn mx where r: "normalize_term_range a b = Inr (mn, mx)"
      by blast
    note parts = normalize_term_range_Inr[OF r]
    show ?thesis
      using that(1,2,3) by (simp add: unf term_bounds_range r parts term_label_def)
  qed
  have exact_err: "snd (normalize_rate_terms h rate_data) = Inl e"
    if "(h ! rate_data) ''termMonths'' = Some (PInt t)" and "normalize_term_to_standard t = Inl e"
    for t e
    using that by (simp add: unf term_bounds_exact)
  have range_err: "snd (normalize_rate_terms h rate_data) = Inl e"
    if "(h ! rate_data) ''termMonths'' = None" and "(h ! rate_data) ''termMin'' = Some (PInt a)"
      and "(h ! rate_data) ''termMax'' = Some (PInt b)" and "normalize_term_range a b = Inl e"
    for a b e
    using that by (simp add: unf term_bounds_range)
  from exact_ok range_ok exact_err range_err show ?thesis
    by blast
qed

theorem normalize_rate_terms_dispatch_witness:
  "normalize_rate_terms [[''termMonths'' \<mapsto> PInt 66, ''apr'' \<mapsto> POther ''5.99'']] 0 =
     ([[''termMonths'' \<mapsto> PInt 66, ''apr'' \<mapsto> POther ''5.99''],
       [''termMonths'' \<mapsto> PInt 66, ''apr'' \<mapsto> POther ''5.99'',
        ''term_range_min'' \<mapsto> PInt 60, ''term_range_max'' \<mapsto> PInt 60,
        ''term_label'' \<mapsto> PStr ''60 Months'']], Inr 1)
   \<and> normalize_rate_terms
       [[''termMin'' \<mapsto> PInt 37, ''termMax'' \<mapsto> PInt 60, ''apr'' \<mapsto> POther ''4.29'']] 0 =
     ([[''termMin'' \<mapsto> PInt 37, ''termMax'' \<mapsto> PInt 60, ''apr'' \<mapsto> POther ''4.29''],
       [''termMin'' \<mapsto> PInt 37, ''termMax'' \<mapsto> PInt 60, ''apr'' \<mapsto> POther ''4.29'',
        ''term_range_min'' \<mapsto> PInt 36, ''term_range_max'' \<mapsto> PInt 60,
        ''term_label'' \<mapsto> PStr ''36-60 Months'']], Inr 1)
   \<and> normalize_rate_terms
       [[''termMonths'' \<mapsto> PInt 75, ''termMin'' \<mapsto> PInt 37, ''termMax'' \<mapsto> PInt 60,
         ''apr'' \<mapsto> POther ''4.29'']] 0 =
     ([[''termMonths'' \<mapsto> PInt 75, ''termMin'' \<mapsto> PInt 37, ''termMax'' \<mapsto> PInt 60,
        ''apr'' \<mapsto> POther ''4.29''],
       [''termMonths'' \<mapsto> PInt 75, ''termMin'' \<mapsto> PInt 37, ''termMax'' \<mapsto> PInt 60,
        ''apr'' \<mapsto> POther ''4.29'',
        ''term_range_min'' \<mapsto> PInt 72, ''term_range_max'' \<mapsto> PInt 72,
        ''term_label'' \<mapsto> PStr ''72 Months'']], Inr 1)"
proof -
  let ?exact = "[''termMonths'' \<mapsto> PInt 66, ''apr'' \<mapsto> POther ''5.99'']"
  let ?range = "[''termMin'' \<mapsto> PInt 37, ''termMax'' \<mapsto> PInt 60, ''apr'' \<mapsto> POther ''4.29'']"
  let ?both = "[''termMonths'' \<mapsto> PInt 75, ''termMin'' \<mapsto> PInt 37, ''termMax'' \<mapsto> PInt 60,
        ''apr'' \<mapsto> POther ''4.29'']"
  have valid: "0 < length [?exact]" "0 < length [?range]" "0 < length [?both]"
    by simp_all
  have n: "normalize_term_to_standard 66 = Inr 60" "normalize_term_to_standard 75 = Inr 72"
    "normalize_term_range 37 60 = Inr (36, 60)"
    by (simp_all add: normalize_term_range_def normalize_closed_form)
  have "[?exact] ! 0 = ?exact" and "?exact ''termMonths'' = Some (PInt 66)"
    by simp_all
  with normalize_rate_terms_dispatch[OF valid(1)]
  obtain h1 r1 where x: "normalize_rate_terms [?exact] 0 = (h1, Inr r1)"
    by force
  show ?thesis
    using x
    by (simp add: normalize_rate_terms_unfold term_bounds_def int_arg_def n
      term_label_def str_int_examples)
qed

subsection \<open>Missing term fields\<close>

lemma missing_msg_distinct:
  "missing_terms_msg \<noteq> invalid_term_msg t" "missing_terms_msg \<noteq> invalid_range_msg a b"
  "invalid_term_msg t \<noteq> missing_terms_msg" "invalid_range_msg a b \<noteq> missing_terms_msg"
  by (simp_all add: missing_terms_msg_def invalid_term_msg_def invalid_range_msg_def)

lemma normalize_not_missing:
  "normalize_term_to_standard t \<noteq> Inl (ValueError missing_terms_msg)"
  by (cases "t < 0") (simp_all add: normalize_negative normalize_closed_form missing_msg_distinct)

lemma normalize_range_not_missing:
  "normalize_term_range a b \<noteq> Inl (ValueError missing_terms_msg)"
  using normalize_not_missing[of a] normalize_not_missing[of b]
  by (auto simp add: normalize_term_range_def missing_msg_distinct split: sum.splits)

lemma term_bounds_missing:
  "(term_bounds d = Inl (ValueError missing_terms_msg))
     = (''termMonths'' \<notin> dom d \<and> \<not> (''termMin'' \<in> dom d \<and> ''termMax'' \<in> dom d))"
  using normalize_not_missing normalize_range_not_missing
  by (auto simp add: term_bounds_def int_arg_def split: sum.splits pyval.splits)

text \<open>
  Claim C5. The record normalizer raises its missing-field \<^verbatim>\<open>ValueError\<close> exactly
  when the record has neither the key \<^verbatim>\<open>termMonths\<close> nor both of the keys
  \<^verbatim>\<open>termMin\<close> and \<^verbatim>\<open>termMax\<close>. That error differs, by its message, from every
  error of the term and range normalizers.
\<close>

theorem missing_field_error:
  assumes "rate_data < length h"
  shows "(snd (normalize_rate_terms h rate_data) = Inl (ValueError missing_terms_msg))
           = (''termMonths'' \<notin> dom (h ! rate_data)
              \<and> \<not> (''termMin'' \<in> dom (h ! rate_data) \<and> ''termMax'' \<in> dom (h ! rate_data)))
         \<and> (\<forall>t. ValueError missing_terms_msg \<noteq> ValueError (invalid_term_msg t))
         \<and> (\<forall>a b. ValueError missing_terms_msg \<noteq> ValueError (invalid_range_msg a b))"
proof -
  have "(snd (normalize_rate_terms h rate_data) = Inl (ValueError missing_terms_msg))
          = (term_bounds (h ! rate_data) = Inl (ValueError missing_terms_msg))"
    by (simp add: normalize_rate_terms_unfold[OF assms] split: sum.splits prod.splits)
  then show ?thesis
    by (simp add: term_bounds_missing missing_msg_distinct)
qed

theorem missing_field_error_witness:
  "snd (normalize_rate_terms [[''apr'' \<mapsto> POther ''3.5'']] 0)
     = Inl (ValueError ''Rate data must include either termMonths or termMin/termMax'')
   \<and> snd (normalize_rate_terms [[''termMin'' \<mapsto> PInt 37, ''apr'' \<mapsto> POther ''3.5'']] 0)
     = Inl (ValueError ''Rate data must include either termMonths or termMin/termMax'')
   \<and> snd (normalize_rate_terms [[''termMonths'' \<mapsto> PInt (- 1), ''apr'' \<mapsto> POther ''3.5'']] 0)
     = Inl (ValueError ''Invalid term: -1. Term must be a non-negative number.'')"
  using missing_field_error[of 0 "[[''apr'' \<mapsto> POther ''3.5'']]"]
    missing_field_error[of 0 "[[''termMin'' \<mapsto> PInt 37, ''apr'' \<mapsto> POther ''3.5'']]"]
  by (simp add: normalize_rate_terms_unfold term_bounds_def int_arg_def normalize_negative
      missing_terms_msg_def invalid_term_msg_def str_int_def str_nat.simps digit_char_def)

subsection \<open>Frame: the input is not mutated and its fields are kept\<close>

text \<open>
  Claim C6. A call leaves every dict that existed before, the caller's input among
  them, as it was. A successful call returns the address of a fresh dict, distinct from
  the input, in which every key other than \<^verbatim>\<open>term_range_min\<close>,
  \<^verbatim>\<open>term_range_max\<close> and \<^verbatim>\<open>term_label\<close> maps to what it maps to in the input
  (so \<^verbatim>\<open>termMonths\<close>, \<^verbatim>\<open>termMin\<close> and \<^verbatim>\<open>termMax\<close> are kept), and the three
  named keys are present.
\<close>

theorem normalize_rate_terms_frame:
  assumes "rate_data < length h" and "normalize_rate_terms h rate_data = (h', r)"
  shows "take (length h) h' = h
         \<and> h' ! rate_data = h ! rate_data
         \<and> (\<forall>res. r = Inr res \<longrightarrow>
               res \<noteq> rate_data \<and> length h \<le> res \<and> res < length h'
               \<and> (\<forall>k. k \<notin> {''term_range_min'', ''term_range_max'', ''term_label''} \<longrightarrow>
                      (h' ! res) k = (h ! rate_data) k)
               \<and> {''term_range_min'', ''term_range_max'', ''term_label''} \<subseteq> dom (h' ! res))"
proof (cases "term_bounds (h ! rate_data)")
  case (Inl e)
  then have "h' = h @ [h ! rate_data]" and "r = Inl e"
    using assms by (simp_all add: normalize_rate_terms_unfold)
  then show ?thesis
    using assms(1) by (simp add: nth_append)
next
  case (Inr p)
  obtain term_min term_max where p: "p = (term_min, term_max)"
    by (cases p)
  let ?d = "(h ! rate_data)(''term_range_min'' \<mapsto> PInt term_min,
              ''term_range_max'' \<mapsto> PInt term_max,
              ''term_label'' \<mapsto> PStr (term_label term_min term_max))"
  have h': "h' = h @ [?d]" and r: "r = Inr (length h)"
    using assms Inr p by (simp_all add: normalize_rate_terms_unfold)
  have unchanged: "take (length h) h' = h" "h' ! rate_data = h ! rate_data"
    using assms(1) by (simp_all add: h' nth_append)
  have res: "h' ! length h = ?d"
    by (simp add: h')
  have other: "\<forall>k. k \<notin> {''term_range_min'', ''term_range_max'', ''term_label''} \<longrightarrow>
      ?d k = (h ! rate_data) k"
    by simp
  have added: "{''term_range_min'', ''term_range_max'', ''term_label''} \<subseteq> dom ?d"
    by simp
  show ?thesis
    using unchanged other added assms(1) unfolding r res[symmetric]
    by (simp add: h')
qed

theorem normalize_rate_terms_frame_witness:
  "fst (normalize_rate_terms
      [[''termMonths'' \<mapsto> PInt 66, ''apr'' \<mapsto> POther ''5.99'',
        ''vehicle_condition'' \<mapsto> PStr ''new'']] 0) ! 0
     = [''termMonths'' \<mapsto> PInt 66, ''apr'' \<mapsto> POther ''5.99'',
        ''vehicle_condition'' \<mapsto> PStr ''new'']
   \<and> snd (normalize_rate_terms
      [[''termMonths'' \<mapsto> PInt 66, ''apr'' \<mapsto> POther ''5.99'',
        ''vehicle_condition'' \<mapsto> PStr ''new'']] 0) = Inr 1
   \<and> fst (normalize_rate_terms
      [[''termMonths'' \<mapsto> PInt 66, ''apr'' \<mapsto> POther ''5.99'',
        ''vehicle_condition'' \<mapsto> PStr ''new'']] 0) ! 1
     = [''termMonths'' \<mapsto> PInt 66, ''apr'' \<mapsto> POther ''5.99'',
        ''vehicle_condition'' \<mapsto> PStr ''new'',
        ''term_range_min'' \<mapsto> PInt 60, ''term_range_max'' \<mapsto> PInt 60,
        ''term_label'' \<mapsto> PStr ''60 Months'']"
proof -
  let ?d = "[''termMonths'' \<mapsto> PInt 66, ''apr'' \<mapsto> POther ''5.99'',
        ''vehicle_condition'' \<mapsto> PStr ''new'']"
  let ?out = "normalize_rate_terms [?d] 0"
  have valid: "0 < length [?d]"
    by simp
  have call: "?out = (fst ?out, snd ?out)"
    by simp
  have run: "snd ?out = Inr 1"
    by (simp add: normalize_rate_terms_unfold term_bounds_def int_arg_def normalize_closed_form)
  have new: "fst ?out ! 1 = ?d(''term_range_min'' \<mapsto> PInt 60, ''term_range_max'' \<mapsto> PInt 60,
        ''term_label'' \<mapsto> PStr ''60 Months'')"
    by (simp add: normalize_rate_terms_unfold term_bounds_def int_arg_def normalize_closed_form
        term_label_def str_int_examples)
  from normalize_rate_terms_frame[OF valid call]
  have "fst ?out ! 0 = [?d] ! 0"
    by blast
  then show ?thesis
    using run new by simp
qed

end
